theory Spec2Isabelle
  imports Complex_Main
begin

section \<open>The declarative default error handler of the Airbyte CDK\<close>

text \<open>
  Source: \<^verbatim>\<open>airbyte_cdk/sources/declarative/requesters/error_handlers/default_error_handler.py\<close>,
  class \<^verbatim>\<open>DefaultErrorHandler\<close>: its constructor hook \<^verbatim>\<open>__post_init__\<close> and its two
  operations \<^verbatim>\<open>interpret_response\<close> and \<^verbatim>\<open>backoff_time\<close>.
  Mutation of \<^verbatim>\<open>self\<close> is explicit state passing: both operations return their result
  together with the handler after the call. Neither operation has a \<^verbatim>\<open>raise\<close>, and the one
  dictionary read (\<^verbatim>\<open>self._last_request_to_attempt_count[request] += 1\<close>) happens only
  under the guard that the key is present, so both are total functions.
\<close>

subsection \<open>Data the handler works on\<close>

text \<open>
  \<^verbatim>\<open>airbyte_cdk.models.FailureType\<close> and \<^verbatim>\<open>ResponseAction\<close>, \<^verbatim>\<open>ErrorResolution\<close> of
  \<^verbatim>\<open>response_models\<close> are imported by the source file; their declarations are
  modelled from the spec: four actions, the failure types system, config and transient,
  and a resolution of action, failure type and error message.
\<close>

datatype FailureType = system_error | config_error | transient_error

datatype ResponseAction = SUCCESS | RETRY | FAIL | IGNORE

record ErrorResolution =
  response_action :: ResponseAction
  failure_type :: "FailureType option"
  error_message :: "string option"

text \<open>
  Modelled from the spec: the constants \<^verbatim>\<open>SUCCESS_RESOLUTION\<close> and
  \<^verbatim>\<open>DEFAULT_ERROR_RESOLUTION\<close> of \<^verbatim>\<open>response_models\<close> (not among the sources). The spec
  gives "the fixed SUCCESS_RESOLUTION" with action SUCCESS and
  "DEFAULT_ERROR_RESOLUTION (action=RETRY, failureType=TRANSIENT)".
\<close>

definition SUCCESS_RESOLUTION :: ErrorResolution where
  "SUCCESS_RESOLUTION =
     \<lparr>response_action = SUCCESS, failure_type = None, error_message = None\<rparr>"

definition DEFAULT_ERROR_RESOLUTION :: ErrorResolution where
  "DEFAULT_ERROR_RESOLUTION =
     \<lparr>response_action = RETRY, failure_type = Some transient_error, error_message = None\<rparr>"

text \<open>
  \<^verbatim>\<open>requests.PreparedRequest\<close> defines neither \<^verbatim>\<open>__eq__\<close> nor \<^verbatim>\<open>__hash__\<close>: as a
  dictionary key it is compared by object identity, which the model carries as a number.
\<close>

datatype PreparedRequest = PreparedRequest nat

record Response =
  status_code :: int
  headers :: "(string \<times> string) list"
  body_text :: string
  request :: PreparedRequest

text \<open>
  The property \<^verbatim>\<open>requests.Response.ok\<close> of the requests library: it is true unless
  \<^verbatim>\<open>raise_for_status()\<close> raises, and that raises exactly for
  \<^verbatim>\<open>400 <= status_code < 600\<close> (client and server errors). A 3xx response is ok.
\<close>

definition ok :: "Response \<Rightarrow> bool" where
  "ok response = (status_code response < 400 \<or> 600 \<le> status_code response)"

record Exception =
  exception_class :: string
  message :: string

text \<open>
  The argument \<^verbatim>\<open>response_or_exception: Optional[Union[requests.Response, Exception]]\<close>
  is an optional value of this union; \<open>None\<close> is Python's \<^verbatim>\<open>None\<close>.
\<close>

datatype response_or_exception = A_Response Response | An_Exception Exception

type_synonym Config = "string \<rightharpoonup> string"

type_synonym Parameters = "string \<rightharpoonup> string"

subsection \<open>Response filters\<close>

text \<open>
  Python's \<^verbatim>\<open>sub in s\<close> on strings: case-sensitive containment of a contiguous substring.
\<close>

fun startswith_str :: "string \<Rightarrow> string \<Rightarrow> bool" where
  "startswith_str [] s = True"
| "startswith_str (c # cs) [] = False"
| "startswith_str (c # cs) (d # ds) = (c = d \<and> startswith_str cs ds)"

fun contains_str :: "string \<Rightarrow> string \<Rightarrow> bool" where
  "contains_str sub [] = (sub = [])"
| "contains_str sub (d # ds) = (startswith_str sub (d # ds) \<or> contains_str sub ds)"

record HttpResponseFilter =
  filter_config :: Config
  filter_parameters :: Parameters
  http_codes :: "int set"
  error_message_contains :: "string option"
  predicate :: "(Response \<Rightarrow> bool) option"
  action :: "ResponseAction option"
  filter_failure_type :: "FailureType option"

text \<open>
  The filter the constructor appends, \<^verbatim>\<open>HttpResponseFilter(config=self.config, parameters={})\<close>:
  every other field keeps its default, so it has no condition and no action.
\<close>

definition default_response_filter :: "Config \<Rightarrow> HttpResponseFilter" where
  "default_response_filter cfg =
     \<lparr>filter_config = cfg, filter_parameters = Map.empty, http_codes = {},
      error_message_contains = None, predicate = None, action = None,
      filter_failure_type = None\<rparr>"

definition condition_matches :: "HttpResponseFilter \<Rightarrow> Response \<Rightarrow> bool" where
  "condition_matches f response =
     (status_code response \<in> http_codes f
      \<or> (case error_message_contains f of
            None \<Rightarrow> False
          | Some sub \<Rightarrow> contains_str sub (body_text response))
      \<or> (case predicate f of None \<Rightarrow> False | Some p \<Rightarrow> p response))"

definition no_condition :: "HttpResponseFilter \<Rightarrow> bool" where
  "no_condition f =
     (http_codes f = {} \<and> error_message_contains f = None \<and> predicate f = None)"

definition is_2xx :: "Response \<Rightarrow> bool" where
  "is_2xx response = (200 \<le> status_code response \<and> status_code response \<le> 299)"

text \<open>
  Modelled from the spec: \<^verbatim>\<open>HttpResponseFilter.matches\<close> (the class is imported from
  \<^verbatim>\<open>http_response_filter\<close>, which is not among the sources). Spec 4.2: a filter matches
  if any of its configured conditions holds (status code in \<^verbatim>\<open>httpCodesToMatch\<close>, the
  substring found in the body, the predicate true); a filter with no condition never
  matches, "except the implicit default catch-all", which matches "any non-2xx status"
  with action RETRY. On a match the filter returns a resolution carrying its action.
  The spec does not say how an unset failure type is inferred from the action nor how the
  error message is built: the model passes the filter's failure type on as configured and
  leaves the message empty. A filter given conditions but no action has nothing to return.
\<close>

definition matches :: "HttpResponseFilter \<Rightarrow> Response \<Rightarrow> ErrorResolution option" where
  "matches f response =
     (case action f of
        None \<Rightarrow>
          (if no_condition f \<and> \<not> is_2xx response
           then Some \<lparr>response_action = RETRY, failure_type = filter_failure_type f,
                      error_message = None\<rparr>
           else None)
      | Some a \<Rightarrow>
          (if condition_matches f response
           then Some \<lparr>response_action = a, failure_type = filter_failure_type f,
                      error_message = None\<rparr>
           else None))"

subsection \<open>Backoff strategies\<close>

text \<open>
  A \<^verbatim>\<open>BackoffStrategy\<close> is an object with one method
  \<^verbatim>\<open>backoff_time(response_or_exception, attempt_count) -> Optional[float]\<close>. The handler
  only tests the returned number for truth and hands it on, so durations are reals:
  no float arithmetic happens in the handler.
\<close>

datatype BackoffStrategy =
  BackoffStrategy (strategy_backoff_time: "response_or_exception option \<Rightarrow> int \<Rightarrow> real option")

text \<open>
  Modelled from the spec: \<^verbatim>\<open>ExponentialBackoffStrategy\<close> (imported from
  \<^verbatim>\<open>exponential_backoff_strategy\<close>, not among the sources). Spec 4.3:
  \<^verbatim>\<open>duration = base * 2^(attemptCount-1)\<close>, and an attempt count of zero or less is
  treated as attempt 1. The spec does not say where the base comes from, so the model
  takes it as an argument next to the constructor's \<^verbatim>\<open>parameters\<close> and \<^verbatim>\<open>config\<close>.
\<close>

definition ExponentialBackoffStrategy :: "real \<Rightarrow> Parameters \<Rightarrow> Config \<Rightarrow> BackoffStrategy" where
  "ExponentialBackoffStrategy base parameters cfg =
     BackoffStrategy (\<lambda>outcome attempt_count. Some (base * 2 ^ nat (max attempt_count 1 - 1)))"

text \<open>Python's truth test \<^verbatim>\<open>if backoff:\<close> on an optional number: \<^verbatim>\<open>None\<close> and zero are false.\<close>

definition truthy :: "real option \<Rightarrow> bool" where
  "truthy backoff = (case backoff of None \<Rightarrow> False | Some d \<Rightarrow> d \<noteq> 0)"

subsection \<open>The handler\<close>

text \<open>
  The dataclass fields; \<^verbatim>\<open>_max_retries\<close>, \<^verbatim>\<open>_max_time\<close> and
  \<^verbatim>\<open>_last_request_to_attempt_count\<close> lose their leading underscore, which an Isabelle
  name cannot start with.
\<close>

record DefaultErrorHandler =
  config :: Config
  response_filters :: "HttpResponseFilter list option"
  max_retries :: "int option"
  max_time :: int
  priv_max_retries :: int
  priv_max_time :: int
  backoff_strategies :: "BackoffStrategy list option"
  last_request_to_attempt_count :: "PreparedRequest \<rightharpoonup> int"

text \<open>
  \<^verbatim>\<open>__post_init__\<close>. The class attribute \<^verbatim>\<open>DEFAULT_BACKOFF_STRATEGY\<close> (the class
  \<^verbatim>\<open>ExponentialBackoffStrategy\<close>, called with \<^verbatim>\<open>parameters\<close> and \<^verbatim>\<open>config\<close>) is an argument.
  \<^verbatim>\<open>self.response_filters or []\<close> turns \<^verbatim>\<open>None\<close> into the empty list;
  \<^verbatim>\<open>not self.backoff_strategies\<close> holds for \<^verbatim>\<open>None\<close> and for the empty list.
\<close>

definition post_init ::
  "(Parameters \<Rightarrow> Config \<Rightarrow> BackoffStrategy) \<Rightarrow> DefaultErrorHandler \<Rightarrow> Parameters
     \<Rightarrow> DefaultErrorHandler" where
  "post_init DEFAULT_BACKOFF_STRATEGY self parameters =
     self\<lparr>response_filters :=
            Some ((case response_filters self of None \<Rightarrow> [] | Some fs \<Rightarrow> fs)
                  @ [default_response_filter (config self)]),
          backoff_strategies :=
            (case backoff_strategies self of
               None \<Rightarrow> Some [DEFAULT_BACKOFF_STRATEGY parameters (config self)]
             | Some bs \<Rightarrow>
                 if bs = [] then Some [DEFAULT_BACKOFF_STRATEGY parameters (config self)]
                 else Some bs),
          last_request_to_attempt_count := Map.empty\<rparr>"

text \<open>
  The generated \<^verbatim>\<open>__init__\<close> of the dataclass followed by \<^verbatim>\<open>__post_init__\<close>: the fields
  with \<^verbatim>\<open>init=False\<close> take their defaults 5 and 600.
\<close>

definition new_handler ::
  "(Parameters \<Rightarrow> Config \<Rightarrow> BackoffStrategy) \<Rightarrow> Parameters \<Rightarrow> Config
     \<Rightarrow> HttpResponseFilter list option \<Rightarrow> int option \<Rightarrow> int
     \<Rightarrow> BackoffStrategy list option \<Rightarrow> DefaultErrorHandler" where
  "new_handler DEFAULT_BACKOFF_STRATEGY parameters cfg filters retries time strategies =
     post_init DEFAULT_BACKOFF_STRATEGY
       \<lparr>config = cfg, response_filters = filters, max_retries = retries, max_time = time,
        priv_max_retries = 5, priv_max_time = 60 * 10, backoff_strategies = strategies,
        last_request_to_attempt_count = Map.empty\<rparr>
       parameters"

text \<open>
  Lines 125 to 128: a request that is not a key replaces the whole dictionary by
  \<^verbatim>\<open>{request: 1}\<close>; a request that is a key has its count incremented in place.
\<close>

definition count_attempt :: "DefaultErrorHandler \<Rightarrow> PreparedRequest \<Rightarrow> DefaultErrorHandler" where
  "count_attempt self req =
     (case last_request_to_attempt_count self req of
        None \<Rightarrow> self\<lparr>last_request_to_attempt_count := [req \<mapsto> 1]\<rparr>
      | Some c \<Rightarrow>
          self\<lparr>last_request_to_attempt_count :=
                 (last_request_to_attempt_count self)(req \<mapsto> c + 1)\<rparr>)"

text \<open>The loop of lines 130 to 133: the first filter whose \<^verbatim>\<open>matches\<close> is not \<^verbatim>\<open>None\<close>.\<close>

fun first_matched_status :: "HttpResponseFilter list \<Rightarrow> Response \<Rightarrow> ErrorResolution option" where
  "first_matched_status [] response = None"
| "first_matched_status (response_filter # rest) response =
     (case matches response_filter response of
        Some matched_status \<Rightarrow> Some matched_status
      | None \<Rightarrow> first_matched_status rest response)"

definition interpret_response ::
  "DefaultErrorHandler \<Rightarrow> response_or_exception option
     \<Rightarrow> ErrorResolution \<times> DefaultErrorHandler" where
  "interpret_response self outcome =
     (case outcome of
        Some (A_Response response) \<Rightarrow>
          if ok response then (SUCCESS_RESOLUTION, self)
          else
            (let self' = count_attempt self (request response) in
             case (case response_filters self' of
                     None \<Rightarrow> None
                   | Some fs \<Rightarrow> if fs = [] then None else first_matched_status fs response) of
               Some matched_status \<Rightarrow> (matched_status, self')
             | None \<Rightarrow> (DEFAULT_ERROR_RESOLUTION, self'))
      | Some (An_Exception e) \<Rightarrow> (DEFAULT_ERROR_RESOLUTION, self)
      | None \<Rightarrow> (DEFAULT_ERROR_RESOLUTION, self))"

text \<open>
  The loop of lines 142 to 145 with the variable \<^verbatim>\<open>backoff\<close> it assigns: a true result
  returns at once, and after the last strategy line 146 returns whatever the variable holds.
\<close>

fun backoff_loop ::
  "BackoffStrategy list \<Rightarrow> response_or_exception option \<Rightarrow> int \<Rightarrow> real option
     \<Rightarrow> real option" where
  "backoff_loop [] outcome attempt_count backoff = backoff"
| "backoff_loop (s # rest) outcome attempt_count backoff =
     (let backoff' = strategy_backoff_time s outcome attempt_count in
      if truthy backoff' then backoff'
      else backoff_loop rest outcome attempt_count backoff')"

definition backoff_time ::
  "DefaultErrorHandler \<Rightarrow> response_or_exception option \<Rightarrow> int
     \<Rightarrow> real option \<times> DefaultErrorHandler" where
  "backoff_time self outcome attempt_count =
     (case backoff_strategies self of
        None \<Rightarrow> (None, self)
      | Some bs \<Rightarrow>
          if bs = [] then (None, self)
          else (backoff_loop bs outcome attempt_count None, self))"

subsection \<open>Concrete inputs\<close>

text \<open>
  Responses, filters and handlers the closed theorems below are evaluated at. A filter
  given status codes or an error-message substring is constructed with these and an
  action, all else default; \<open>handler_with\<close> constructs a handler with the default exponential
  strategy of base 5 as \<^verbatim>\<open>DEFAULT_BACKOFF_STRATEGY\<close> and the dataclass defaults
  \<^verbatim>\<open>max_retries=5\<close>, \<^verbatim>\<open>max_time=600\<close>.
\<close>

definition response_with :: "int \<Rightarrow> string \<Rightarrow> nat \<Rightarrow> Response" where
  "response_with code body rid =
     \<lparr>status_code = code, headers = [], body_text = body, request = PreparedRequest rid\<rparr>"

definition filter_on_codes :: "int set \<Rightarrow> ResponseAction \<Rightarrow> HttpResponseFilter" where
  "filter_on_codes codes a =
     \<lparr>filter_config = Map.empty, filter_parameters = Map.empty, http_codes = codes,
      error_message_contains = None, predicate = None, action = Some a,
      filter_failure_type = None\<rparr>"

definition filter_on_message :: "string \<Rightarrow> ResponseAction \<Rightarrow> HttpResponseFilter" where
  "filter_on_message sub a =
     \<lparr>filter_config = Map.empty, filter_parameters = Map.empty, http_codes = {},
      error_message_contains = Some sub, predicate = None, action = Some a,
      filter_failure_type = None\<rparr>"

definition handler_with ::
  "HttpResponseFilter list option \<Rightarrow> BackoffStrategy list option \<Rightarrow> DefaultErrorHandler" where
  "handler_with filters strategies =
     new_handler (ExponentialBackoffStrategy 5) Map.empty Map.empty filters (Some 5) (60 * 10)
       strategies"

definition constant_strategy :: "real option \<Rightarrow> BackoffStrategy" where
  "constant_strategy d = BackoffStrategy (\<lambda>outcome attempt_count. d)"

section \<open>Properties\<close>

subsection \<open>Facts about the parts\<close>

lemma response_filters_count_attempt:
  "response_filters (count_attempt self req) = response_filters self"
  by (simp add: count_attempt_def split: option.split)

lemma response_filters_new_handler:
  "response_filters (new_handler D parameters cfg filters retries time strategies) =
     Some ((case filters of None \<Rightarrow> [] | Some fs \<Rightarrow> fs) @ [default_response_filter cfg])"
  by (simp add: new_handler_def post_init_def)

lemma matches_default_response_filter:
  "matches (default_response_filter cfg) response =
     (if is_2xx response then None
      else Some \<lparr>response_action = RETRY, failure_type = None, error_message = None\<rparr>)"
  by (simp add: matches_def default_response_filter_def no_condition_def)

lemma not_ok_not_2xx: "\<not> ok response \<Longrightarrow> \<not> is_2xx response"
  by (auto simp: ok_def is_2xx_def)

lemma backoff_strategies_count_attempt:
  "backoff_strategies (count_attempt self req) = backoff_strategies self"
  by (simp add: count_attempt_def split: option.split)

lemma count_attempt_frame:
  "count_attempt self req =
     self\<lparr>last_request_to_attempt_count :=
            last_request_to_attempt_count (count_attempt self req)\<rparr>"
  by (simp add: count_attempt_def split: option.split)

lemma interpret_response_not_ok:
  "\<not> ok response \<Longrightarrow>
     snd (interpret_response self (Some (A_Response response))) =
       count_attempt self (request response)"
  by (simp add: interpret_response_def Let_def split: option.split)

lemma backoff_strategies_new_handler:
  "backoff_strategies (new_handler D parameters cfg filters retries time strategies) =
     (if strategies = None \<or> strategies = Some [] then Some [D parameters cfg]
      else strategies)"
  by (auto simp: new_handler_def post_init_def split: option.split)

lemma interpret_response_frame:
  "snd (interpret_response self outcome) =
     self\<lparr>last_request_to_attempt_count :=
            last_request_to_attempt_count (snd (interpret_response self outcome))\<rparr>"
proof (cases outcome)
  case None
  then show ?thesis by (simp add: interpret_response_def)
next
  case (Some x)
  show ?thesis
  proof (cases x)
    case (A_Response response)
    show ?thesis
    proof (cases "ok response")
      case True
      with Some A_Response show ?thesis by (simp add: interpret_response_def)
    next
      case False
      with Some A_Response show ?thesis
        using count_attempt_frame [of self "request response"]
        by (simp add: interpret_response_not_ok)
    qed
  next
    case (An_Exception e)
    with Some show ?thesis by (simp add: interpret_response_def)
  qed
qed

lemma interpret_response_fst_count:
  "fst (interpret_response (self\<lparr>last_request_to_attempt_count := m\<rparr>) outcome) =
   fst (interpret_response self outcome)"
  by (simp add: interpret_response_def Let_def response_filters_count_attempt
      split: option.split response_or_exception.split)

lemma first_matched_status_first:
  assumes "\<forall>g \<in> set pre. matches g response = None"
    and "matches f response = Some resolution"
  shows "first_matched_status (pre @ f # post) response = Some resolution"
  using assms by (induction pre) simp_all

text \<open>
  What the loop of \<^verbatim>\<open>backoff_time\<close> computes: the result of the first strategy whose
  result is true in Python's sense (neither \<^verbatim>\<open>None\<close> nor zero), and when there is none,
  the result of the last strategy, whatever it is.
\<close>

lemma backoff_loop_first_truthy:
  assumes "\<forall>s \<in> set pre. \<not> truthy (strategy_backoff_time s outcome n)"
    and "truthy (strategy_backoff_time s outcome n)"
  shows "backoff_loop (pre @ s # post) outcome n b = strategy_backoff_time s outcome n"
  using assms by (induction pre arbitrary: b) (simp_all add: Let_def)

lemma backoff_loop_none_truthy:
  assumes "\<forall>s \<in> set bs. \<not> truthy (strategy_backoff_time s outcome n)" and "bs \<noteq> []"
  shows "backoff_loop bs outcome n b = strategy_backoff_time (last bs) outcome n"
  using assms by (induction bs arbitrary: b) (simp_all add: Let_def)

subsection \<open>No caller-supplied filters\<close>

text \<open>
  Claim C1, amended. As stated (every response with status code at least 300) the claim
  fails: \<^verbatim>\<open>interpret_response\<close> tests \<^verbatim>\<open>response.ok\<close>, which is true for every status
  below 400, so a 301 response is answered with \<^verbatim>\<open>SUCCESS_RESOLUTION\<close>. What holds: for
  every response that is not ok (status code from 400 to 599), a handler constructed with
  no caller-supplied filters (\<^verbatim>\<open>None\<close> or the empty list) returns a resolution whose
  action is RETRY.
\<close>

theorem interpret_response_no_filters_retry:
  assumes "\<not> ok response" and "filters = None \<or> filters = Some []"
  shows "response_action (fst (interpret_response
           (new_handler D parameters cfg filters retries time strategies)
           (Some (A_Response response)))) = RETRY"
  using assms
  by (auto simp: interpret_response_def Let_def response_filters_count_attempt
      response_filters_new_handler matches_default_response_filter not_ok_not_2xx)

text \<open>The theorem at a 500 response, for a handler constructed without filters.\<close>

theorem interpret_response_no_filters_retry_witness:
  "\<not> ok (response_with 500 ''oops'' 7)
   \<and> response_action (fst (interpret_response (handler_with None None)
        (Some (A_Response (response_with 500 ''oops'' 7))))) = RETRY"
  using interpret_response_no_filters_retry
    [of "response_with 500 ''oops'' 7" None "ExponentialBackoffStrategy 5" Map.empty Map.empty
       "Some 5" "60 * 10" None]
  by (simp add: ok_def response_with_def handler_with_def)

text \<open>
  Claim C1 as stated is false at status 301: the handler constructed without filters
  returns the action SUCCESS.
\<close>

theorem interpret_response_redirect_counterexample:
  "300 \<le> status_code (response_with 301 ''moved'' 7)
   \<and> response_action (fst (interpret_response (handler_with None None)
        (Some (A_Response (response_with 301 ''moved'' 7))))) = SUCCESS"
  by (simp add: interpret_response_def ok_def response_with_def SUCCESS_RESOLUTION_def)

subsection \<open>Exceptions\<close>

text \<open>
  Claim C2, amended. The filter loop sits under
  \<^verbatim>\<open>isinstance(response_or_exception, requests.Response)\<close>, so no filter is evaluated
  against an exception. What holds: for every exception and every handler state,
  \<^verbatim>\<open>interpret_response\<close> returns \<^verbatim>\<open>DEFAULT_ERROR_RESOLUTION\<close>, whose action is RETRY, and
  leaves the handler as it was.
\<close>

theorem interpret_response_exception_default:
  "interpret_response self (Some (An_Exception e)) = (DEFAULT_ERROR_RESOLUTION, self)
   \<and> response_action (fst (interpret_response self (Some (An_Exception e)))) = RETRY"
  by (simp add: interpret_response_def DEFAULT_ERROR_RESOLUTION_def)

text \<open>
  The theorem at an exception whose message is the substring a FAIL filter is
  configured with: the action is RETRY all the same.
\<close>

theorem interpret_response_exception_default_witness:
  "response_action (fst (interpret_response
      (handler_with (Some [filter_on_message ''retrythisrequest!'' FAIL]) None)
      (Some (An_Exception \<lparr>exception_class = ''ConnectionError'',
                             message = ''retrythisrequest!''\<rparr>)))) = RETRY"
  using interpret_response_exception_default
    [of "handler_with (Some [filter_on_message ''retrythisrequest!'' FAIL]) None"
        "\<lparr>exception_class = ''ConnectionError'', message = ''retrythisrequest!''\<rparr>"]
  by (simp add: DEFAULT_ERROR_RESOLUTION_def)

text \<open>
  Claim C2 as stated is false: the exception's message contains the substring of a
  configured filter whose action is IGNORE, and the handler returns the action RETRY.
\<close>

theorem interpret_response_exception_counterexample:
  "contains_str ''retrythisrequest!''
     (message \<lparr>exception_class = ''ConnectionError'',
               message = ''please retrythisrequest! now''\<rparr>)
   \<and> error_message_contains (filter_on_message ''retrythisrequest!'' IGNORE)
       = Some ''retrythisrequest!''
   \<and> action (filter_on_message ''retrythisrequest!'' IGNORE) = Some IGNORE
   \<and> response_filters (handler_with (Some [filter_on_message ''retrythisrequest!'' IGNORE]) None)
       = Some [filter_on_message ''retrythisrequest!'' IGNORE, default_response_filter Map.empty]
   \<and> response_action (fst (interpret_response
        (handler_with (Some [filter_on_message ''retrythisrequest!'' IGNORE]) None)
        (Some (An_Exception \<lparr>exception_class = ''ConnectionError'',
                               message = ''please retrythisrequest! now''\<rparr>)))) = RETRY"
  by (simp add: interpret_response_def DEFAULT_ERROR_RESOLUTION_def filter_on_message_def
      handler_with_def response_filters_new_handler)

subsection \<open>Attempt counting\<close>

text \<open>
  Claim C3, amended. For every response that is not ok, the attempt-count mapping after
  \<^verbatim>\<open>interpret_response\<close> is: the singleton \<^verbatim>\<open>{request: 1}\<close>, replacing the whole mapping,
  when the response's request had no entry; and the previous mapping with only that
  request's count incremented when it had one. So consecutive failures of one request
  count 1, 2, 3, and the first failure of another request discards every other entry.
\<close>

theorem interpret_response_attempt_count:
  assumes "\<not> ok response"
  shows "last_request_to_attempt_count
           (snd (interpret_response self (Some (A_Response response)))) =
         (case last_request_to_attempt_count self (request response) of
            None \<Rightarrow> [request response \<mapsto> 1]
          | Some c \<Rightarrow> (last_request_to_attempt_count self)(request response \<mapsto> c + 1))"
  using assms
  by (simp add: interpret_response_not_ok count_attempt_def split: option.split)

text \<open>Three consecutive 500 responses to the same request count 1, 2 and 3.\<close>

theorem interpret_response_attempt_count_witness:
  "\<not> ok (response_with 500 ''oops'' 7)
   \<and> last_request_to_attempt_count
        (snd (interpret_response (handler_with None None)
           (Some (A_Response (response_with 500 ''oops'' 7)))))
        (PreparedRequest 7) = Some 1
   \<and> last_request_to_attempt_count
        (snd (interpret_response
           (snd (interpret_response (handler_with None None)
              (Some (A_Response (response_with 500 ''oops'' 7)))))
           (Some (A_Response (response_with 500 ''oops'' 7)))))
        (PreparedRequest 7) = Some 2
   \<and> last_request_to_attempt_count
        (snd (interpret_response
          (snd (interpret_response
             (snd (interpret_response (handler_with None None)
                (Some (A_Response (response_with 500 ''oops'' 7)))))
             (Some (A_Response (response_with 500 ''oops'' 7)))))
          (Some (A_Response (response_with 500 ''oops'' 7)))))
        (PreparedRequest 7) = Some 3"
proof -
  let ?r = "response_with 500 ''oops'' 7"
  let ?h0 = "handler_with None None"
  let ?h1 = "snd (interpret_response ?h0 (Some (A_Response ?r)))"
  let ?h2 = "snd (interpret_response ?h1 (Some (A_Response ?r)))"
  have bad: "\<not> ok ?r" by (simp add: ok_def response_with_def)
  have req: "request ?r = PreparedRequest 7" by (simp add: response_with_def)
  have c0: "last_request_to_attempt_count ?h0 = Map.empty"
    by (simp add: handler_with_def new_handler_def post_init_def)
  have c1: "last_request_to_attempt_count ?h1 = [PreparedRequest 7 \<mapsto> 1]"
    using interpret_response_attempt_count [OF bad, of ?h0] by (simp add: req c0)
  have c2: "last_request_to_attempt_count ?h2 = [PreparedRequest 7 \<mapsto> 2]"
    using interpret_response_attempt_count [OF bad, of ?h1] by (simp add: req c1)
  have c3: "last_request_to_attempt_count (snd (interpret_response ?h2 (Some (A_Response ?r))))
              = [PreparedRequest 7 \<mapsto> 3]"
    using interpret_response_attempt_count [OF bad, of ?h2] by (simp add: req c2)
  show ?thesis using bad c1 c2 c3 by simp
qed

text \<open>
  Claim C3 as stated is false: with the count 2 stored for request 7, a 500 response to
  request 8 leaves no entry for request 7.
\<close>

theorem interpret_response_attempt_count_counterexample:
  "last_request_to_attempt_count
     ((handler_with None None)\<lparr>last_request_to_attempt_count := [PreparedRequest 7 \<mapsto> 2]\<rparr>)
     (PreparedRequest 7) = Some 2
   \<and> status_code (response_with 500 ''oops'' 8) = 500
   \<and> request (response_with 500 ''oops'' 8) = PreparedRequest 8
   \<and> last_request_to_attempt_count
       (snd (interpret_response
          ((handler_with None None)\<lparr>last_request_to_attempt_count := [PreparedRequest 7 \<mapsto> 2]\<rparr>)
          (Some (A_Response (response_with 500 ''oops'' 8)))))
       (PreparedRequest 7) = None"
  by (simp add: interpret_response_def Let_def ok_def response_with_def count_attempt_def
      split: option.split)

subsection \<open>The backoff chain\<close>

text \<open>
  Claim C4. The class docstring promises "the first non-None backoff time", and the claim
  that a returned zero is a valid duration that is not skipped. The loop tests
  \<^verbatim>\<open>if backoff:\<close>, which is false for zero: with a first strategy returning 0 and a second
  returning 5, \<^verbatim>\<open>backoff_time\<close> returns 5.
\<close>

theorem backoff_time_skips_zero:
  "fst (backoff_time
          (handler_with None (Some [constant_strategy (Some 0), constant_strategy (Some 5)]))
          (Some (A_Response (response_with 500 ''oops'' 7))) 1) = Some 5"
  by (simp add: backoff_time_def handler_with_def new_handler_def post_init_def
      constant_strategy_def truthy_def Let_def)

subsection \<open>Inputs that are neither a response nor an exception\<close>

text \<open>
  Claim C5, amended. The parameter is declared \<^verbatim>\<open>Optional[...]\<close> and nothing in
  \<^verbatim>\<open>interpret_response\<close> raises. What holds: for the input \<^verbatim>\<open>None\<close>, and every handler
  state, \<^verbatim>\<open>interpret_response\<close> returns \<^verbatim>\<open>DEFAULT_ERROR_RESOLUTION\<close>, whose action is
  RETRY, and leaves the handler as it was.
\<close>

theorem interpret_response_none_default:
  "interpret_response self None = (DEFAULT_ERROR_RESOLUTION, self)
   \<and> response_action (fst (interpret_response self None)) = RETRY"
  by (simp add: interpret_response_def DEFAULT_ERROR_RESOLUTION_def)

text \<open>The same at a handler constructed with defaults.\<close>

theorem interpret_response_none_default_witness:
  "snd (interpret_response (handler_with None None) None) = handler_with None None
   \<and> response_action (fst (interpret_response (handler_with None None) None)) = RETRY"
  using interpret_response_none_default [of "handler_with None None"]
  by (simp add: DEFAULT_ERROR_RESOLUTION_def)

text \<open>
  Claim C5 as stated is false: on \<^verbatim>\<open>None\<close> the call returns normally, with a resolution
  whose action is RETRY.
\<close>

theorem interpret_response_none_counterexample:
  "interpret_response (handler_with None None) None =
     (\<lparr>response_action = RETRY, failure_type = Some transient_error, error_message = None\<rparr>,
      handler_with None None)"
  by (simp add: interpret_response_def DEFAULT_ERROR_RESOLUTION_def)

subsection \<open>Filter precedence\<close>

text \<open>
  Claim C6, amended. For every response that is not ok (status code from 400 to 599) and
  every filter list of the handler, \<^verbatim>\<open>interpret_response\<close> returns the resolution of the
  first filter in list order that matches: if no filter before \<open>f\<close> matches and \<open>f\<close> does,
  the result is \<open>f\<close>'s resolution, whatever the filters after \<open>f\<close> would answer.
\<close>

theorem interpret_response_first_match:
  assumes "\<not> ok response"
    and "response_filters self = Some (pre @ f # post)"
    and "\<forall>g \<in> set pre. matches g response = None"
    and "matches f response = Some resolution"
  shows "fst (interpret_response self (Some (A_Response response))) = resolution"
  using assms first_matched_status_first [OF assms(3) assms(4), of post]
  by (simp add: interpret_response_def Let_def response_filters_count_attempt)

text \<open>
  Filters for 429 (IGNORE), 404 (IGNORE) and 404 (RETRY), in this order, and a 404
  response: the first 404 filter decides, IGNORE, although the later one matches too.
\<close>

theorem interpret_response_first_match_witness:
  "\<not> ok (response_with 404 ''gone'' 7)
   \<and> response_filters (handler_with
        (Some [filter_on_codes {429} IGNORE, filter_on_codes {404} IGNORE,
               filter_on_codes {404} RETRY]) None)
       = Some ([filter_on_codes {429} IGNORE] @ filter_on_codes {404} IGNORE
               # [filter_on_codes {404} RETRY, default_response_filter Map.empty])
   \<and> matches (filter_on_codes {429} IGNORE) (response_with 404 ''gone'' 7) = None
   \<and> matches (filter_on_codes {404} RETRY) (response_with 404 ''gone'' 7)
       = Some \<lparr>response_action = RETRY, failure_type = None, error_message = None\<rparr>
   \<and> fst (interpret_response
        (handler_with
          (Some [filter_on_codes {429} IGNORE, filter_on_codes {404} IGNORE,
                 filter_on_codes {404} RETRY]) None)
        (Some (A_Response (response_with 404 ''gone'' 7))))
       = \<lparr>response_action = IGNORE, failure_type = None, error_message = None\<rparr>"
proof -
  let ?r = "response_with 404 ''gone'' 7"
  let ?h = "handler_with
          (Some [filter_on_codes {429} IGNORE, filter_on_codes {404} IGNORE,
                 filter_on_codes {404} RETRY]) None"
  have bad: "\<not> ok ?r" by (simp add: ok_def response_with_def)
  have fs: "response_filters ?h
       = Some ([filter_on_codes {429} IGNORE] @ filter_on_codes {404} IGNORE
               # [filter_on_codes {404} RETRY, default_response_filter Map.empty])"
    by (simp add: handler_with_def response_filters_new_handler)
  have pre: "\<forall>g \<in> set [filter_on_codes {429} IGNORE]. matches g ?r = None"
    by (simp add: matches_def filter_on_codes_def condition_matches_def response_with_def)
  have hit: "matches (filter_on_codes {404} IGNORE) ?r
       = Some \<lparr>response_action = IGNORE, failure_type = None, error_message = None\<rparr>"
    by (simp add: matches_def filter_on_codes_def condition_matches_def response_with_def)
  have later: "matches (filter_on_codes {404} RETRY) ?r
       = Some \<lparr>response_action = RETRY, failure_type = None, error_message = None\<rparr>"
    by (simp add: matches_def filter_on_codes_def condition_matches_def response_with_def)
  show ?thesis
    using interpret_response_first_match [OF bad fs pre hit] bad fs pre later by simp
qed

text \<open>
  Claim C6 as stated (every non-2xx response) is false at status 301: the only configured
  filter matches the response with FAIL, and the handler returns \<^verbatim>\<open>SUCCESS_RESOLUTION\<close>
  because the response is ok.
\<close>

theorem interpret_response_first_match_counterexample:
  "\<not> is_2xx (response_with 301 ''moved'' 7)
   \<and> response_filters (handler_with (Some [filter_on_codes {301} FAIL]) None)
       = Some [filter_on_codes {301} FAIL, default_response_filter Map.empty]
   \<and> matches (filter_on_codes {301} FAIL) (response_with 301 ''moved'' 7)
       = Some \<lparr>response_action = FAIL, failure_type = None, error_message = None\<rparr>
   \<and> fst (interpret_response (handler_with (Some [filter_on_codes {301} FAIL]) None)
        (Some (A_Response (response_with 301 ''moved'' 7))))
       = \<lparr>response_action = SUCCESS, failure_type = None, error_message = None\<rparr>"
  by (simp add: interpret_response_def ok_def is_2xx_def response_with_def
      SUCCESS_RESOLUTION_def matches_def filter_on_codes_def condition_matches_def
      handler_with_def response_filters_new_handler)

subsection \<open>Successful responses\<close>

text \<open>
  Claim C7. For every response with status code in [200, 299) and every handler state
  (so every filter configuration), \<^verbatim>\<open>interpret_response\<close> returns \<^verbatim>\<open>SUCCESS_RESOLUTION\<close>
  and the handler unchanged: no filter decides anything and the attempt counts stay.
\<close>

theorem interpret_response_success:
  assumes "200 \<le> status_code response" and "status_code response < 299"
  shows "interpret_response self (Some (A_Response response)) = (SUCCESS_RESOLUTION, self)"
  using assms by (simp add: interpret_response_def ok_def)

text \<open>
  A 200 response and a handler whose only configured filter would match it with FAIL:
  the result is the success resolution and the handler is the same.
\<close>

theorem interpret_response_success_witness:
  "200 \<le> status_code (response_with 200 ''fine'' 7)
   \<and> status_code (response_with 200 ''fine'' 7) < 299
   \<and> matches (filter_on_codes {200} FAIL) (response_with 200 ''fine'' 7)
       = Some \<lparr>response_action = FAIL, failure_type = None, error_message = None\<rparr>
   \<and> interpret_response (handler_with (Some [filter_on_codes {200} FAIL]) None)
        (Some (A_Response (response_with 200 ''fine'' 7)))
       = (\<lparr>response_action = SUCCESS, failure_type = None, error_message = None\<rparr>,
          handler_with (Some [filter_on_codes {200} FAIL]) None)"
proof -
  let ?r = "response_with 200 ''fine'' 7"
  have lo: "200 \<le> status_code ?r" and hi: "status_code ?r < 299"
    by (simp_all add: response_with_def)
  have hit: "matches (filter_on_codes {200} FAIL) ?r
       = Some \<lparr>response_action = FAIL, failure_type = None, error_message = None\<rparr>"
    by (simp add: matches_def filter_on_codes_def condition_matches_def response_with_def)
  show ?thesis
    using interpret_response_success [OF lo hi, of "handler_with (Some [filter_on_codes {200} FAIL]) None"]
      lo hi hit
    by (simp add: SUCCESS_RESOLUTION_def)
qed

subsection \<open>The attempt counts do not influence the results\<close>

text \<open>
  Claim C8. Two handler states that differ only in the attempt-count mapping give the
  same resolution from \<^verbatim>\<open>interpret_response\<close> and the same duration from
  \<^verbatim>\<open>backoff_time\<close>, on the same arguments.
\<close>

theorem outputs_independent_of_attempt_counts:
  "fst (interpret_response (self\<lparr>last_request_to_attempt_count := m1\<rparr>) outcome) =
   fst (interpret_response (self\<lparr>last_request_to_attempt_count := m2\<rparr>) outcome)
   \<and> fst (backoff_time (self\<lparr>last_request_to_attempt_count := m1\<rparr>) outcome attempt_count) =
     fst (backoff_time (self\<lparr>last_request_to_attempt_count := m2\<rparr>) outcome attempt_count)"
proof
  show "fst (interpret_response (self\<lparr>last_request_to_attempt_count := m1\<rparr>) outcome) =
        fst (interpret_response (self\<lparr>last_request_to_attempt_count := m2\<rparr>) outcome)"
    by (simp add: interpret_response_fst_count)
  show "fst (backoff_time (self\<lparr>last_request_to_attempt_count := m1\<rparr>) outcome attempt_count) =
     fst (backoff_time (self\<lparr>last_request_to_attempt_count := m2\<rparr>) outcome attempt_count)"
    by (simp add: backoff_time_def split: option.split)
qed

text \<open>
  With the count 41 stored and with no count stored, a 404 response is resolved to IGNORE
  by the same filter, and the third attempt waits 20 under the default strategy.
\<close>

theorem outputs_independent_of_attempt_counts_witness:
  "fst (interpret_response
         ((handler_with (Some [filter_on_codes {404} IGNORE]) None)
            \<lparr>last_request_to_attempt_count := [PreparedRequest 7 \<mapsto> 41]\<rparr>)
         (Some (A_Response (response_with 404 ''gone'' 7))))
     = \<lparr>response_action = IGNORE, failure_type = None, error_message = None\<rparr>
   \<and> fst (interpret_response
         ((handler_with (Some [filter_on_codes {404} IGNORE]) None)
            \<lparr>last_request_to_attempt_count := Map.empty\<rparr>)
         (Some (A_Response (response_with 404 ''gone'' 7))))
     = \<lparr>response_action = IGNORE, failure_type = None, error_message = None\<rparr>
   \<and> fst (backoff_time
         ((handler_with None None)\<lparr>last_request_to_attempt_count := [PreparedRequest 7 \<mapsto> 41]\<rparr>)
         (Some (A_Response (response_with 404 ''gone'' 7))) 3) = Some 20
   \<and> fst (backoff_time
         ((handler_with None None)\<lparr>last_request_to_attempt_count := Map.empty\<rparr>)
         (Some (A_Response (response_with 404 ''gone'' 7))) 3) = Some 20"
proof -
  let ?r = "Some (A_Response (response_with 404 ''gone'' 7))"
  let ?h = "handler_with (Some [filter_on_codes {404} IGNORE]) None"
  have a: "fst (interpret_response (?h\<lparr>last_request_to_attempt_count := Map.empty\<rparr>) ?r)
     = \<lparr>response_action = IGNORE, failure_type = None, error_message = None\<rparr>"
    by (simp add: interpret_response_def Let_def ok_def response_with_def
        response_filters_count_attempt handler_with_def response_filters_new_handler
        matches_def filter_on_codes_def condition_matches_def)
  have b: "fst (backoff_time ((handler_with None None)\<lparr>last_request_to_attempt_count := Map.empty\<rparr>)
             ?r 3) = Some 20"
    by (simp add: backoff_time_def handler_with_def backoff_strategies_new_handler
        ExponentialBackoffStrategy_def truthy_def Let_def)
  show ?thesis
    using outputs_independent_of_attempt_counts
        [where self = ?h and ?m1.0 = "[PreparedRequest 7 \<mapsto> 41]" and outcome = ?r
           and ?m2.0 = Map.empty and attempt_count = 3]
      outputs_independent_of_attempt_counts
        [where self = "handler_with None None" and ?m1.0 = "[PreparedRequest 7 \<mapsto> 41]"
           and outcome = ?r and ?m2.0 = Map.empty and attempt_count = 3]
      a b
    by simp
qed

subsection \<open>Construction\<close>

text \<open>
  Claim C9. After construction the filter list is the caller's filters in their order
  followed by one default filter, and the strategy list is the single default strategy
  when the caller gave none (\<^verbatim>\<open>None\<close> or the empty list) and the caller's list otherwise.
  Neither operation changes the two lists afterwards.
\<close>

theorem new_handler_structure:
  "response_filters (new_handler D parameters cfg filters retries time strategies) =
     Some ((case filters of None \<Rightarrow> [] | Some fs \<Rightarrow> fs) @ [default_response_filter cfg])
   \<and> backoff_strategies (new_handler D parameters cfg filters retries time strategies) =
       (if strategies = None \<or> strategies = Some [] then Some [D parameters cfg]
        else strategies)
   \<and> response_filters
        (snd (interpret_response
           (new_handler D parameters cfg filters retries time strategies) outcome)) =
       response_filters (new_handler D parameters cfg filters retries time strategies)
   \<and> backoff_strategies
        (snd (interpret_response
           (new_handler D parameters cfg filters retries time strategies) outcome)) =
       backoff_strategies (new_handler D parameters cfg filters retries time strategies)
   \<and> snd (backoff_time
        (new_handler D parameters cfg filters retries time strategies) outcome attempt_count) =
       new_handler D parameters cfg filters retries time strategies"
proof -
  let ?h = "new_handler D parameters cfg filters retries time strategies"
  have f: "response_filters (snd (interpret_response ?h outcome)) = response_filters ?h"
    using interpret_response_frame [of ?h outcome]
    by (metis (no_types) DefaultErrorHandler.select_convs(2)
        DefaultErrorHandler.surjective DefaultErrorHandler.update_convs(8))
  have b: "backoff_strategies (snd (interpret_response ?h outcome)) = backoff_strategies ?h"
    using interpret_response_frame [of ?h outcome]
    by (metis (no_types) DefaultErrorHandler.select_convs(7)
        DefaultErrorHandler.surjective DefaultErrorHandler.update_convs(8))
  have t: "snd (backoff_time ?h outcome attempt_count) = ?h"
    by (simp add: backoff_time_def split: option.split)
  show ?thesis
    using f b t by (simp add: response_filters_new_handler backoff_strategies_new_handler)
qed

text \<open>
  One caller-supplied filter and no strategies: the list is the filter followed by the
  default filter, and the strategies are the single default one; an empty strategy list
  is replaced in the same way and a non-empty one is kept.
\<close>

theorem new_handler_structure_witness:
  "response_filters (handler_with (Some [filter_on_codes {404} IGNORE]) None) =
     Some [filter_on_codes {404} IGNORE, default_response_filter Map.empty]
   \<and> backoff_strategies (handler_with (Some [filter_on_codes {404} IGNORE]) None) =
       Some [ExponentialBackoffStrategy 5 Map.empty Map.empty]
   \<and> backoff_strategies (handler_with None (Some [])) =
       Some [ExponentialBackoffStrategy 5 Map.empty Map.empty]
   \<and> backoff_strategies (handler_with None (Some [constant_strategy (Some 3)])) =
       Some [constant_strategy (Some 3)]"
  using new_handler_structure
      [of "ExponentialBackoffStrategy 5" Map.empty Map.empty
          "Some [filter_on_codes {404} IGNORE]" "Some 5" "60 * 10" None None 1]
    new_handler_structure
      [of "ExponentialBackoffStrategy 5" Map.empty Map.empty
          None "Some 5" "60 * 10" "Some []" None 1]
    new_handler_structure
      [of "ExponentialBackoffStrategy 5" Map.empty Map.empty
          None "Some 5" "60 * 10" "Some [constant_strategy (Some 3)]" None 1]
  by (simp add: handler_with_def)

subsection \<open>What the operations leave unchanged\<close>

text \<open>
  Claim C10. \<^verbatim>\<open>backoff_time\<close> returns the handler as it received it, and after
  \<^verbatim>\<open>interpret_response\<close> the handler differs from the one before in the attempt-count
  mapping at most: the filter list, the strategy list and the configuration fields are the
  same.
\<close>

theorem operations_frame:
  "snd (backoff_time self outcome attempt_count) = self
   \<and> snd (interpret_response self outcome) =
       self\<lparr>last_request_to_attempt_count :=
              last_request_to_attempt_count (snd (interpret_response self outcome))\<rparr>
   \<and> config (snd (interpret_response self outcome)) = config self
   \<and> response_filters (snd (interpret_response self outcome)) = response_filters self
   \<and> max_retries (snd (interpret_response self outcome)) = max_retries self
   \<and> max_time (snd (interpret_response self outcome)) = max_time self
   \<and> priv_max_retries (snd (interpret_response self outcome)) = priv_max_retries self
   \<and> priv_max_time (snd (interpret_response self outcome)) = priv_max_time self
   \<and> backoff_strategies (snd (interpret_response self outcome)) = backoff_strategies self"
proof -
  let ?after = "snd (interpret_response self outcome)"
  have frame: "?after = self\<lparr>last_request_to_attempt_count :=
                                 last_request_to_attempt_count ?after\<rparr>"
    by (rule interpret_response_frame)
  have t: "snd (backoff_time self outcome attempt_count) = self"
    by (simp add: backoff_time_def split: option.split)
  have "config ?after = config self"
    using arg_cong [OF frame, where f = config] by simp
  moreover have "response_filters ?after = response_filters self"
    using arg_cong [OF frame, where f = response_filters] by simp
  moreover have "max_retries ?after = max_retries self"
    using arg_cong [OF frame, where f = max_retries] by simp
  moreover have "max_time ?after = max_time self"
    using arg_cong [OF frame, where f = max_time] by simp
  moreover have "priv_max_retries ?after = priv_max_retries self"
    using arg_cong [OF frame, where f = priv_max_retries] by simp
  moreover have "priv_max_time ?after = priv_max_time self"
    using arg_cong [OF frame, where f = priv_max_time] by simp
  moreover have "backoff_strategies ?after = backoff_strategies self"
    using arg_cong [OF frame, where f = backoff_strategies] by simp
  ultimately show ?thesis using t frame by simp
qed

text \<open>
  A 500 response at a freshly constructed handler: the count of its request goes from
  absent to 1, the two lists stay, and \<^verbatim>\<open>backoff_time\<close> returns the handler it was given.
\<close>

theorem operations_frame_witness:
  "snd (backoff_time (handler_with None None)
          (Some (A_Response (response_with 500 ''oops'' 7))) 2) = handler_with None None
   \<and> last_request_to_attempt_count
        (snd (interpret_response (handler_with None None)
           (Some (A_Response (response_with 500 ''oops'' 7))))) (PreparedRequest 7) = Some 1
   \<and> last_request_to_attempt_count (handler_with None None) (PreparedRequest 7) = None
   \<and> response_filters
        (snd (interpret_response (handler_with None None)
           (Some (A_Response (response_with 500 ''oops'' 7)))))
       = Some [default_response_filter Map.empty]
   \<and> backoff_strategies
        (snd (interpret_response (handler_with None None)
           (Some (A_Response (response_with 500 ''oops'' 7)))))
       = Some [ExponentialBackoffStrategy 5 Map.empty Map.empty]"
proof -
  let ?r = "response_with 500 ''oops'' 7"
  let ?h = "handler_with None None"
  have bad: "\<not> ok ?r" by (simp add: ok_def response_with_def)
  have c: "last_request_to_attempt_count (snd (interpret_response ?h (Some (A_Response ?r))))
             (PreparedRequest 7) = Some 1"
    unfolding interpret_response_not_ok [OF bad]
    by (simp add: count_attempt_def response_with_def handler_with_def new_handler_def
        post_init_def)
  have c0: "last_request_to_attempt_count ?h (PreparedRequest 7) = None"
    by (simp add: handler_with_def new_handler_def post_init_def)
  have f: "response_filters ?h = Some [default_response_filter Map.empty]"
    by (simp add: handler_with_def response_filters_new_handler)
  have b: "backoff_strategies ?h = Some [ExponentialBackoffStrategy 5 Map.empty Map.empty]"
    by (simp add: handler_with_def backoff_strategies_new_handler)
  show ?thesis
    using operations_frame [of ?h "Some (A_Response ?r)" 2] c c0 f b by simp
qed

end
